theory Spec2Isabelle
  imports Complex_Main
begin

section \<open>Python values\<close>

text \<open>
  The services return Python dictionaries built from literals. A dictionary is an
  association list from key strings to values, so that the absence of a key can be
  stated. Python floats are modelled as exact reals: every threshold of the code is
  compared as written, and rounding error is outside the model. \<open>PNaN\<close> is the float nan,
  which the real numbers do not have. \<open>PNpBool\<close> is a \<open>numpy.bool_\<close>, the value of a
  comparison of numpy numbers: it has a truth value but is not a Python \<open>bool\<close>.
  \<open>PFmt t args\<close> stands for an f-string: the template \<open>t\<close>, with one \<^verbatim>\<open>{:.2f}\<close> for
  every number of \<open>args\<close>.
\<close>

datatype py_error = ValueError | TypeError | NotFittedError | OSError

text \<open>Sequencing of calls that may raise: the first error ends the computation.\<close>

definition raise_bind :: "py_error + 'a \<Rightarrow> ('a \<Rightarrow> py_error + 'b) \<Rightarrow> py_error + 'b" where
  "raise_bind r k = (case r of Inl e \<Rightarrow> Inl e | Inr v \<Rightarrow> k v)"

datatype pyval =
    PNone
  | PBool bool
  | PNpBool bool
  | PNum real
  | PNaN
  | PStr string
  | PFmt string "real list"
  | PList "pyval list"
  | PDict "(string \<times> pyval) list"

type_synonym pydict = "(string \<times> pyval) list"

definition get :: "pydict \<Rightarrow> string \<Rightarrow> pyval option" where
  "get d k = map_of d k"

text \<open>The truth value of a Python value.\<close>

fun truth :: "pyval \<Rightarrow> bool" where
  "truth PNone = False"
| "truth (PBool b) = b"
| "truth (PNpBool b) = b"
| "truth (PNum x) = (x \<noteq> 0)"
| "truth PNaN = True"
| "truth (PStr s) = (s \<noteq> [])"
| "truth (PFmt t args) = (t \<noteq> [])"
| "truth (PList xs) = (xs \<noteq> [])"
| "truth (PDict kvs) = (kvs \<noteq> [])"

text \<open>Truth value of an optional number: \<open>None\<close> and \<open>0\<close> are both false.\<close>

definition truthy :: "real option \<Rightarrow> bool" where
  "truthy v = (case v of None \<Rightarrow> False | Some x \<Rightarrow> x \<noteq> 0)"

definition opt_num :: "real option \<Rightarrow> pyval" where
  "opt_num v = (case v of None \<Rightarrow> PNone | Some x \<Rightarrow> PNum x)"

section \<open>leak\_detector.py\<close>

text \<open>\<open>LeakDetector.detect\<close>: the instantaneous rules, an if/elif chain.\<close>

definition leak_rules :: "real \<Rightarrow> real \<Rightarrow> bool \<times> real" where
  "leak_rules pressure flow_rate =
     (if pressure < 2.0 \<and> flow_rate > 0 then (True, 0.7)
      else if pressure < 1.5 then (True, 0.9)
      else if flow_rate > 50 \<and> pressure < 3 then (True, 0.8)
      else (False, 0))"

definition sensor_location :: "bool \<Rightarrow> real \<Rightarrow> real option \<Rightarrow> real option \<Rightarrow> pyval" where
  "sensor_location detected confidence gps_lat gps_lon =
     (if detected \<and> truthy gps_lat \<and> truthy gps_lon
      then PDict [(''lat'', opt_num gps_lat), (''lon'', opt_num gps_lon),
                  (''confidence'', PNum confidence), (''method'', PStr ''sensor_location'')]
      else PNone)"

definition LeakDetector_detect ::
  "string option \<Rightarrow> real \<Rightarrow> real \<Rightarrow> real option \<Rightarrow> real option \<Rightarrow> pydict" where
  "LeakDetector_detect device_id pressure flow_rate gps_lat gps_lon =
     (let (leak_detected, confidence) = leak_rules pressure flow_rate;
          gps_estimate = sensor_location leak_detected confidence gps_lat gps_lon
      in [(''leak_detected'', PBool leak_detected),
          (''confidence'', PNum confidence),
          (''gps_estimate'', gps_estimate),
          (''pressure'', PNum pressure),
          (''flow_rate'', PNum flow_rate)])"

subsection \<open>The numpy functions the services call\<close>

text \<open>
  The numpy functions are modelled from their documentation, on one-dimensional arrays
  of reals. A function that raises on some input returns \<open>Inl\<close> of the error there.
  \<open>np.mean\<close> and \<open>np.std\<close> are only called on non-empty arrays by the code below.
\<close>

definition np_mean :: "real list \<Rightarrow> real" where
  "np_mean xs = sum_list xs / real (length xs)"

definition np_std :: "real list \<Rightarrow> real" where
  "np_std xs = sqrt (np_mean (map (\<lambda>x. (x - np_mean xs)\<^sup>2) xs))"

text \<open>\<open>np.gradient\<close> with unit spacing: central differences inside, one-sided at both ends.\<close>

definition np_gradient :: "real list \<Rightarrow> py_error + real list" where
  "np_gradient f =
     (let n = length f
      in if n < 2 then Inl ValueError
         else Inr (map (\<lambda>i. if i = 0 then f ! 1 - f ! 0
                             else if i = n - 1 then f ! (n - 1) - f ! (n - 2)
                             else (f ! (i + 1) - f ! (i - 1)) / 2) [0..<n]))"

definition np_min :: "real list \<Rightarrow> py_error + real" where
  "np_min xs = (case xs of [] \<Rightarrow> Inl ValueError | x # ys \<Rightarrow> Inr (fold min ys x))"

text \<open>\<open>np.argmin\<close>: the first index of the minimum.\<close>

definition np_argmin :: "real list \<Rightarrow> py_error + nat" where
  "np_argmin xs =
     raise_bind (np_min xs) (\<lambda>m. Inr (length (takeWhile (\<lambda>x. x \<noteq> m) xs)))"

definition np_cov :: "real list \<Rightarrow> real list \<Rightarrow> real" where
  "np_cov xs ys =
     sum_list (map2 (\<lambda>x y. (x - np_mean xs) * (y - np_mean ys)) xs ys) / (real (length xs) - 1)"

text \<open>
  \<open>np.corrcoef(x, y)[0, 1]\<close>: the covariance divided by both standard deviations and
  clipped to \<open>[-1, 1]\<close>. Arrays of different lengths raise \<open>ValueError\<close>; a constant array
  gives \<open>0 / 0\<close>, which is nan (\<open>None\<close> here).
\<close>

definition np_corrcoef :: "real list \<Rightarrow> real list \<Rightarrow> py_error + real option" where
  "np_corrcoef xs ys =
     (if length xs \<noteq> length ys then Inl ValueError
      else let cxx = np_cov xs xs; cyy = np_cov ys ys; cxy = np_cov xs ys
           in if cxx = 0 \<or> cyy = 0 then Inr None
              else Inr (Some (max (- 1) (min 1 (cxy / sqrt cxx / sqrt cyy)))))"

text \<open>A comparison with nan is false.\<close>

definition nan_less :: "real option \<Rightarrow> real \<Rightarrow> bool" where
  "nan_less c t = (case c of None \<Rightarrow> False | Some v \<Rightarrow> v < t)"

definition float_val :: "real option \<Rightarrow> pyval" where
  "float_val c = (case c of None \<Rightarrow> PNaN | Some v \<Rightarrow> PNum v)"

text \<open>The slice \<open>a[-k:]\<close>.\<close>

definition last_n :: "nat \<Rightarrow> 'a list \<Rightarrow> 'a list" where
  "last_n k xs = drop (length xs - k) xs"

subsection \<open>\<open>LeakDetector.detect_with_history\<close>\<close>

text \<open>
  The decision logic: three independent \<open>if\<close> statements, each setting the flag and
  adding its weight to the confidence, which starts at 0.
\<close>

definition leak_decision :: "real \<Rightarrow> real option \<Rightarrow> real \<Rightarrow> real \<Rightarrow> real \<Rightarrow> bool \<times> real" where
  "leak_decision pressure_drop correlation recent_pressure pressure_mean pressure_std =
     (let (d0, c0) = (False, 0);
          (d1, c1) = (if pressure_drop < - 0.3 then (True, c0 + 0.4) else (d0, c0));
          (d2, c2) = (if nan_less correlation (- 0.5) then (True, c1 + 0.3) else (d1, c1));
          (d3, c3) = (if recent_pressure < pressure_mean - 2 * pressure_std
                      then (True, c2 + 0.3) else (d2, c2))
      in (d3, c3))"

definition leak_location :: "bool \<Rightarrow> real list \<Rightarrow> real \<Rightarrow> py_error + pyval" where
  "leak_location leak_detected pressure_gradient pressure_drop =
     (if leak_detected
      then raise_bind (np_argmin pressure_gradient) (\<lambda>max_drop_idx.
             Inr (PDict [(''index'', PNum (real max_drop_idx)),
                         (''pressure_drop'', PNum pressure_drop),
                         (''method'', PStr ''pressure_gradient_analysis'')]))
      else Inr PNone)"

definition detect_with_history ::
  "string option \<Rightarrow> real list \<Rightarrow> real list \<Rightarrow> py_error + pydict" where
  "detect_with_history device_id pressure_data flow_data =
     (if length pressure_data < 10 \<or> length flow_data < 10 then
        Inr [(''leak_detected'', PBool False),
             (''confidence'', PNum 0),
             (''message'', PStr ''Insufficient data for leak detection'')]
      else
        raise_bind (np_gradient pressure_data) (\<lambda>pressure_gradient.
        raise_bind (np_min pressure_gradient) (\<lambda>pressure_drop.
        raise_bind (np_corrcoef pressure_data flow_data) (\<lambda>correlation.
        let pressure_mean = np_mean pressure_data;
            pressure_std = np_std pressure_data;
            recent_pressure = np_mean (last_n 5 pressure_data);
            (leak_detected, confidence) =
              leak_decision pressure_drop correlation recent_pressure pressure_mean pressure_std
        in raise_bind (leak_location leak_detected pressure_gradient pressure_drop)
             (\<lambda>leak_location_estimate.
           Inr [(''leak_detected'', PBool leak_detected),
                (''confidence'', PNum (min confidence 1.0)),
                (''leak_location_estimate'', leak_location_estimate),
                (''pressure_drop'', PNum pressure_drop),
                (''correlation'', float_val correlation),
                (''pressure_stats'',
                   PDict [(''mean'', PNum pressure_mean),
                          (''std'', PNum pressure_std),
                          (''recent'', PNum recent_pressure)])])))))"

section \<open>contamination\_detector.py\<close>

definition turbidity_safe :: real where "turbidity_safe = 5.0"
definition turbidity_warning :: real where "turbidity_warning = 7.0"
definition turbidity_critical :: real where "turbidity_critical = 10.0"
definition temperature_range :: "real \<times> real" where "temperature_range = (15, 35)"

text \<open>The degree sign of the descriptions, as its two UTF-8 bytes.\<close>

definition degree_sign :: string where
  "degree_sign = [CHR 0xC2, CHR 0xB0]"

definition get_action :: "string \<Rightarrow> string" where
  "get_action severity =
     (case map_of
        [(''critical'', ''IMMEDIATE: Stop water supply. Notify health authorities. Conduct emergency water quality test.''),
         (''high'', ''URGENT: Issue public advisory. Increase monitoring frequency. Investigate contamination source.''),
         (''medium'', ''Monitor closely. Increase sampling frequency. Check upstream sources.''),
         (''low'', ''Continue monitoring. Review sensor calibration.'')] severity of
        None \<Rightarrow> ''Monitor and investigate''
      | Some a \<Rightarrow> a)"

text \<open>
  The turbidity bands of \<open>ContaminationDetector.detect\<close>: the flag, the severity, the
  confidence and the description (template and arguments).
\<close>

definition turbidity_check :: "real \<Rightarrow> bool \<times> string \<times> real \<times> string \<times> real list" where
  "turbidity_check turbidity =
     (if turbidity \<ge> turbidity_critical then
        (True, ''critical'', 0.95,
         ''Critical contamination detected: Turbidity {:.2f} NTU exceeds safe limit (5 NTU)'',
         [turbidity])
      else if turbidity \<ge> turbidity_warning then
        (True, ''high'', 0.8,
         ''High contamination risk: Turbidity {:.2f} NTU above warning threshold'', [turbidity])
      else if turbidity \<ge> turbidity_safe then
        (True, ''medium'', 0.6,
         ''Moderate contamination: Turbidity {:.2f} NTU above safe limit'', [turbidity])
      else (False, ''low'', 0, [], []))"

text \<open>The temperature check, applied to the outcome of the turbidity bands.\<close>

definition temperature_check ::
  "real \<Rightarrow> bool \<times> string \<times> real \<times> string \<times> real list \<Rightarrow>
   bool \<times> string \<times> real \<times> string \<times> real list" where
  "temperature_check temperature st =
     (case st of (contamination_detected, severity, confidence, description, args) \<Rightarrow>
        if temperature < fst temperature_range \<or> temperature > snd temperature_range then
          if contamination_detected then
            (contamination_detected, severity, min (confidence + 0.1) 1.0,
             description @ ''. Temperature anomaly: {:.2f}'' @ degree_sign @ ''C'',
             args @ [temperature])
          else
            (True, ''low'', 0.5,
             ''Temperature anomaly detected: {:.2f}'' @ degree_sign @ ''C (expected: 15-35''
               @ degree_sign @ ''C)'',
             [temperature])
        else st)"

definition ContaminationDetector_detect ::
  "string option \<Rightarrow> real \<Rightarrow> real \<Rightarrow> real option \<Rightarrow> real option \<Rightarrow> pydict" where
  "ContaminationDetector_detect device_id turbidity temperature gps_lat gps_lon =
     (case temperature_check temperature (turbidity_check turbidity) of
        (contamination_detected, severity, confidence, description, args) \<Rightarrow>
          let gps_estimate = sensor_location contamination_detected confidence gps_lat gps_lon
          in [(''contamination_detected'', PBool contamination_detected),
              (''severity'', PStr severity),
              (''confidence'', PNum confidence),
              (''description'', PFmt description args),
              (''turbidity'', PNum turbidity),
              (''temperature'', PNum temperature),
              (''gps_estimate'', gps_estimate),
              (''recommended_action'', PStr (get_action severity))])"

text \<open>
  \<open>np.polyfit(range(n), y, 1)[0]\<close>: the slope of the least-squares line through the
  points \<open>(i, y\<^sub>i)\<close>.
\<close>

definition polyfit_slope :: "real list \<Rightarrow> real" where
  "polyfit_slope ys =
     (let n = real (length ys);
          xs = map real [0..<length ys];
          sx = sum_list xs;
          sy = sum_list ys;
          sxy = sum_list (map2 (*) xs ys);
          sxx = sum_list (map (\<lambda>x. x * x) xs)
      in (n * sxy - sx * sy) / (n * sxx - sx * sx))"

text \<open>
  \<open>detect_pattern\<close>. The comparisons of array elements give \<open>numpy.bool_\<close> values, and
  \<open>a or (b and c)\<close> returns one of its operands.
\<close>

definition detect_pattern :: "real list \<Rightarrow> real list \<Rightarrow> pydict" where
  "detect_pattern turbidity_history temperature_history =
     (if length turbidity_history < 5 then
        [(''contamination_detected'', PBool False), (''message'', PStr ''Insufficient data'')]
      else
        let turbidity_mean = np_mean (butlast turbidity_history);
            turbidity_std = np_std (butlast turbidity_history);
            current_turbidity = last turbidity_history;
            spike_detected = (current_turbidity > turbidity_mean + 3 * turbidity_std);
            increasing_trend =
              (if length turbidity_history \<ge> 10
               then PNpBool (polyfit_slope (last_n 10 turbidity_history) > 0.1)
               else PBool False);
            contamination_detected =
              (if spike_detected then PNpBool spike_detected
               else if truth increasing_trend then PNpBool (current_turbidity > turbidity_safe)
               else increasing_trend)
        in [(''contamination_detected'', contamination_detected),
            (''spike_detected'', PNpBool spike_detected),
            (''increasing_trend'', increasing_trend),
            (''current_turbidity'', PNum current_turbidity),
            (''baseline_turbidity'', PNum turbidity_mean),
            (''confidence'', PNum (if spike_detected then 0.7 else 0.5))])"

section \<open>maintenance\_predictor.py\<close>

text \<open>
  One record of \<open>historical_data\<close>: a dictionary whose keys may be missing.
\<close>

record history_record =
  rec_flow_rate :: "real option"
  rec_pressure :: "real option"
  rec_turbidity :: "real option"
  rec_temperature :: "real option"
  rec_pump_status :: "string option"

text \<open>
  The regression model is a \<open>RandomForestRegressor\<close> of scikit-learn. Two things of it
  matter here: the number of columns it was fitted on, and the value its trees give to
  a row. \<open>self.model.predict([features])[0]\<close> raises \<open>ValueError\<close> when the row has another
  number of columns than the model was fitted on.
\<close>

record regressor =
  n_features_in :: nat
  forest_value :: "real list \<Rightarrow> real"

definition regressor_predict :: "regressor \<Rightarrow> real list \<Rightarrow> py_error + real" where
  "regressor_predict model features =
     (if length features = n_features_in model then Inr (forest_value model features)
      else Inl ValueError)"

text \<open>
  \<open>MaintenancePredictor.__init__\<close>: the model is the one stored at \<open>model_path\<close> when that
  file exists; otherwise it is fitted on \<open>dummy_X = np.random.rand(100, 5)\<close>, an array of 5
  columns, and the values of its trees depend on the random data.
\<close>

definition MaintenancePredictor_init :: "regressor option \<Rightarrow> (real list \<Rightarrow> real) \<Rightarrow> regressor" where
  "MaintenancePredictor_init stored fitted =
     (case stored of
        Some model \<Rightarrow> model
      | None \<Rightarrow> \<lparr> n_features_in = 5, forest_value = fitted \<rparr>)"

definition get_or :: "'a option \<Rightarrow> 'a \<Rightarrow> 'a" where
  "get_or v d = (case v of None \<Rightarrow> d | Some x \<Rightarrow> x)"

definition extract_features :: "history_record list \<Rightarrow> real list" where
  "extract_features historical_data =
     (let flow_rates = map (\<lambda>d. get_or (rec_flow_rate d) 0) historical_data;
          pressures = map (\<lambda>d. get_or (rec_pressure d) 0) historical_data;
          turbidities = map (\<lambda>d. get_or (rec_turbidity d) 0) historical_data;
          temperatures = map (\<lambda>d. get_or (rec_temperature d) 0) historical_data;
          pump_statuses =
            map (\<lambda>d. if rec_pump_status d = Some ''on'' then 1 else 0) historical_data
      in [np_mean flow_rates,
          np_std flow_rates,
          np_mean pressures,
          np_std pressures,
          np_mean turbidities,
          sum_list pump_statuses / real (length pump_statuses)])"

definition get_recommended_actions :: "string \<Rightarrow> real list \<Rightarrow> string list" where
  "get_recommended_actions urgency features =
     (case map_of
        [(''critical'',
            [''Schedule immediate maintenance'',
             ''Check pump motor and bearings'',
             ''Inspect pipeline for leaks'',
             ''Review sensor calibrations'']),
         (''high'',
            [''Schedule maintenance within 3 days'',
             ''Monitor pump performance closely'',
             ''Check for unusual vibrations or sounds'',
             ''Review recent sensor readings'']),
         (''medium'',
            [''Schedule maintenance within 1 week'',
             ''Continue regular monitoring'',
             ''Prepare maintenance checklist'']),
         (''low'',
            [''Continue regular monitoring'',
             ''Schedule routine maintenance as per schedule''])] urgency of
        None \<Rightarrow> []
      | Some a \<Rightarrow> a)"

definition predict ::
  "regressor \<Rightarrow> string option \<Rightarrow> history_record list \<Rightarrow> py_error + pydict" where
  "predict model device_id historical_data =
     (if length historical_data < 30 then
        Inr [(''maintenance_needed'', PBool False),
             (''days_until_maintenance'', PNone),
             (''confidence'', PNum 0),
             (''message'', PStr ''Insufficient historical data (need at least 30 readings)'')]
      else
        let features = extract_features historical_data
        in raise_bind (regressor_predict model features) (\<lambda>prediction.
             let maintenance_needed = (prediction < 7);
                 urgency = (if prediction < 1 then ''critical''
                            else if prediction < 3 then ''high''
                            else if prediction < 7 then ''medium''
                            else ''low'');
                 confidence = min (real (length historical_data) / 100) 1.0
             in Inr [(''maintenance_needed'', PNpBool maintenance_needed),
                     (''days_until_maintenance'', PNum prediction),
                     (''urgency'', PStr urgency),
                     (''confidence'', PNum confidence),
                     (''recommended_actions'',
                        PList (map PStr (get_recommended_actions urgency features)))]))"


section \<open>anomaly\_detector.py\<close>

text \<open>
  The scaler (\<open>StandardScaler\<close>) and the model (\<open>IsolationForest\<close>) are objects of
  scikit-learn. Their states are the type parameters \<open>'s\<close> and \<open>'m\<close>, and the methods the
  code calls are the fields of a record. A method that raises returns \<open>Inl\<close>. The two \<open>fit\<close>
  methods work in place, so they return the state they leave behind together with their
  outcome. \<open>detect\<close> passes a single row, so \<open>transform\<close>, \<open>predict\<close> and \<open>score_samples\<close>
  are given for one row, and \<open>forest_predict\<close> is \<open>predict(...)[0]\<close>. \<open>save_files\<close> is
  \<open>_save_model\<close>: it writes both objects to disk and may raise.
\<close>

record ('s, 'm) sklearn =
  scaler_transform :: "'s \<Rightarrow> real list \<Rightarrow> py_error + real list"
  scaler_fit_transform :: "'s \<Rightarrow> real list list \<Rightarrow> 's \<times> (py_error + real list list)"
  forest_predict :: "'m \<Rightarrow> real list \<Rightarrow> py_error + int"
  forest_score_samples :: "'m \<Rightarrow> real list \<Rightarrow> py_error + real"
  forest_fit :: "'m \<Rightarrow> real list list \<Rightarrow> 'm \<times> (py_error + unit)"
  save_files :: "'m \<Rightarrow> 's \<Rightarrow> py_error + unit"

text \<open>The mutable attributes of an \<open>AnomalyDetector\<close>.\<close>

record ('s, 'm) anomaly_detector =
  self_model :: 'm
  self_scaler :: 's

definition normal_flow_rate :: "real \<times> real" where "normal_flow_rate = (5, 50)"
definition normal_pressure :: "real \<times> real" where "normal_pressure = (2, 8)"
definition normal_turbidity :: "real \<times> real" where "normal_turbidity = (0, 5)"
definition normal_temperature :: "real \<times> real" where "normal_temperature = (15, 35)"

text \<open>The cascade of \<open>detect\<close> that names the anomaly and its severity.\<close>

definition anomaly_rules :: "real \<Rightarrow> real \<Rightarrow> real \<Rightarrow> real \<Rightarrow> string \<times> string" where
  "anomaly_rules flow_rate pressure turbidity temperature =
     (if pressure < fst normal_pressure \<or> pressure > snd normal_pressure then
        (''pressure_anomaly'',
         if pressure < 1 then ''critical''
         else if pressure < 1.5 then ''high''
         else ''medium'')
      else if flow_rate < fst normal_flow_rate * 0.5 then
        (''low_flow'', if flow_rate < 1 then ''high'' else ''medium'')
      else if turbidity > snd normal_turbidity then
        (''contamination'',
         if turbidity > 10 then ''critical''
         else if turbidity > 7 then ''high''
         else ''medium'')
      else if \<bar>flow_rate - pressure * 5\<bar> > 20 then (''leak'', ''high'')
      else (''general_anomaly'', ''medium''))"

definition generate_description :: "string \<Rightarrow> real \<Rightarrow> real \<Rightarrow> real \<Rightarrow> real \<Rightarrow> pyval" where
  "generate_description anomaly_type flow_rate pressure turbidity temperature =
     (case map_of
        [(''pressure_anomaly'',
            PFmt ''Pressure anomaly detected: {:.2f} bar (expected: 2-8 bar)'' [pressure]),
         (''low_flow'',
            PFmt ''Low flow rate detected: {:.2f} L/min (expected: 5-50 L/min)'' [flow_rate]),
         (''contamination'',
            PFmt ''Water quality issue: Turbidity {:.2f} NTU (expected: <5 NTU)'' [turbidity]),
         (''leak'',
            PFmt ''Possible leak detected: Flow-Pressure mismatch (Flow: {:.2f} L/min, Pressure: {:.2f} bar)''
              [flow_rate, pressure]),
         (''general_anomaly'', PStr ''Anomaly detected in sensor readings'')] anomaly_type of
        None \<Rightarrow> PStr ''Anomaly detected''
      | Some d \<Rightarrow> d)"

definition get_recommended_action :: "string \<Rightarrow> string \<Rightarrow> string" where
  "get_recommended_action anomaly_type severity =
     (case map_of
        [(''pressure_anomaly'', ''Check pump operation and pipeline integrity''),
         (''low_flow'', ''Inspect for blockages or valve issues''),
         (''contamination'', ''Immediate water quality test required. Notify health authorities.''),
         (''leak'', ''Dispatch field team to investigate leak. Use GPS coordinates for location.''),
         (''general_anomaly'', ''Review sensor readings and perform diagnostic check'')]
        anomaly_type of
        None \<Rightarrow> ''Investigate anomaly''
      | Some a \<Rightarrow> a)"

text \<open>What \<open>detect\<close> reports once the model has given its verdict and its score.\<close>

definition anomaly_report :: "int \<Rightarrow> real \<Rightarrow> real \<Rightarrow> real \<Rightarrow> real \<Rightarrow> real \<Rightarrow> pydict" where
  "anomaly_report prediction anomaly_score flow_rate pressure turbidity temperature =
     (let anomaly_detected = (prediction = - 1);
          confidence = \<bar>anomaly_score\<bar> * 100;
          (anomaly_type, severity, description, recommended_action) =
            (if anomaly_detected then
               (let (ty, sev) = anomaly_rules flow_rate pressure turbidity temperature
                in (PStr ty, sev,
                    generate_description ty flow_rate pressure turbidity temperature,
                    get_recommended_action ty sev))
             else (PNone, ''low'', PStr ''All parameters within normal range'',
                   ''Continue monitoring''))
      in [(''anomaly_detected'', PNpBool anomaly_detected),
          (''anomaly_type'', anomaly_type),
          (''severity'', PStr severity),
          (''confidence'', PNum (min confidence 100)),
          (''description'', description),
          (''recommended_action'', PStr recommended_action)])"

definition AnomalyDetector_detect ::
  "('s, 'm) sklearn \<Rightarrow> ('s, 'm) anomaly_detector \<Rightarrow>
   real \<Rightarrow> real \<Rightarrow> real \<Rightarrow> real \<Rightarrow> string option \<Rightarrow> py_error + pydict" where
  "AnomalyDetector_detect lib self flow_rate pressure turbidity temperature device_id =
     (let features = [flow_rate, pressure, turbidity, temperature]
      in raise_bind (scaler_transform lib (self_scaler self) features) (\<lambda>features_scaled.
         raise_bind (forest_predict lib (self_model self) features_scaled) (\<lambda>prediction.
         raise_bind (forest_score_samples lib (self_model self) features_scaled) (\<lambda>anomaly_score.
           Inr (anomaly_report prediction anomaly_score flow_rate pressure turbidity
                  temperature)))))"

text \<open>
  \<open>np.array\<close> of a list of rows: rows of different lengths raise \<open>ValueError\<close> (NumPy 1.24
  and later); the empty list is an empty array.
\<close>

definition np_array :: "real list list \<Rightarrow> py_error + real list list" where
  "np_array rows =
     (if list_all (\<lambda>r. length r = length (hd rows)) rows then Inr rows else Inl ValueError)"

text \<open>
  \<open>update_model\<close>: the \<open>try\<close> block runs four steps, and any exception ends it with
  \<open>False\<close>. Each step that ran has already changed the object it works on.
\<close>

definition update_model ::
  "('s, 'm) sklearn \<Rightarrow> ('s, 'm) anomaly_detector \<Rightarrow> real list list \<Rightarrow>
   bool \<times> ('s, 'm) anomaly_detector" where
  "update_model lib self training_data =
     (case np_array training_data of
        Inl e \<Rightarrow> (False, self)
      | Inr X \<Rightarrow>
          (case scaler_fit_transform lib (self_scaler self) X of
             (scaler1, Inl e) \<Rightarrow> (False, self\<lparr>self_scaler := scaler1\<rparr>)
           | (scaler1, Inr X_scaled) \<Rightarrow>
               (case forest_fit lib (self_model self) X_scaled of
                  (model1, Inl e) \<Rightarrow>
                    (False, self\<lparr>self_scaler := scaler1, self_model := model1\<rparr>)
                | (model1, Inr u) \<Rightarrow>
                    (case save_files lib model1 scaler1 of
                       Inl e \<Rightarrow> (False, self\<lparr>self_scaler := scaler1, self_model := model1\<rparr>)
                     | Inr v \<Rightarrow>
                         (True, self\<lparr>self_scaler := scaler1, self_model := model1\<rparr>)))))"


section \<open>app.py\<close>

definition clamp :: "real \<Rightarrow> real \<Rightarrow> real \<Rightarrow> real" where
  "clamp value min_value max_value = max min_value (min value max_value)"

definition score_turbidity :: "real option \<Rightarrow> real" where
  "score_turbidity turbidity =
     (case turbidity of
        None \<Rightarrow> 60
      | Some t \<Rightarrow> clamp (100 - (clamp t 0 50 / 50) * 100) 0 100)"

definition score_conductivity :: "real option \<Rightarrow> real" where
  "score_conductivity conductivity =
     (case conductivity of
        None \<Rightarrow> 65
      | Some c \<Rightarrow> clamp (100 - ((clamp c 0 1500 - 250) / 1250) * 100) 0 100)"

definition score_temperature :: "real option \<Rightarrow> real" where
  "score_temperature temperature =
     (case temperature of
        None \<Rightarrow> 70
      | Some t \<Rightarrow>
          if 15 \<le> t \<and> t \<le> 30 then 100
          else let deviation = min \<bar>t - 22.5\<bar> 15
               in clamp (100 - (deviation / 15) * 100) 0 100)"

definition score_ph :: "real option \<Rightarrow> real" where
  "score_ph ph =
     (case ph of
        None \<Rightarrow> 70
      | Some p \<Rightarrow>
          let ideal = 7.4;
              deviation = \<bar>p - ideal\<bar>
          in if deviation \<ge> 3 then 0
             else clamp (100 - (deviation / 3) * 100) 0 100)"

text \<open>The three indicator emoji, as their UTF-8 bytes.\<close>

definition green_circle :: string where
  "green_circle = [CHR 0xF0, CHR 0x9F, CHR 0x9F, CHR 0xA2]"

definition yellow_circle :: string where
  "yellow_circle = [CHR 0xF0, CHR 0x9F, CHR 0x9F, CHR 0xA1]"

definition red_circle :: string where
  "red_circle = [CHR 0xF0, CHR 0x9F, CHR 0x94, CHR 0xB4]"

definition classify_wqi :: "real \<Rightarrow> pydict" where
  "classify_wqi wqi =
     (if wqi \<ge> 80 then
        [(''status'', PStr ''good''),
         (''color'', PStr ''green''),
         (''indicator'', PStr green_circle),
         (''message'', PStr ''Water quality is good and safe for supply.'')]
      else if wqi \<ge> 60 then
        [(''status'', PStr ''average''),
         (''color'', PStr ''yellow''),
         (''indicator'', PStr yellow_circle),
         (''message'', PStr ''Water quality is acceptable but should be monitored.'')]
      else
        [(''status'', PStr ''bad''),
         (''color'', PStr ''red''),
         (''indicator'', PStr red_circle),
         (''message'', PStr ''Water quality is poor. Immediate action required.'')])"

text \<open>\<open>round(x, 2)\<close>: to the nearest hundredth, a tie to the even one.\<close>

definition round2 :: "real \<Rightarrow> real" where
  "round2 x =
     (let y = x * 100;
          f = \<lfloor>y\<rfloor>;
          d = y - of_int f
      in of_int (if d < 1 / 2 then f
                 else if d > 1 / 2 then f + 1
                 else if even f then f else f + 1) / 100)"

definition calculate_water_quality ::
  "real option \<Rightarrow> real option \<Rightarrow> real option \<Rightarrow> real option \<Rightarrow> pydict" where
  "calculate_water_quality turbidity ph temperature conductivity =
     (let turbidity_score = score_turbidity turbidity;
          ph_score = score_ph ph;
          temperature_score = score_temperature temperature;
          conductivity_score = score_conductivity conductivity;
          wqi = round2 (turbidity_score * 0.3 + ph_score * 0.3 +
                        temperature_score * 0.2 + conductivity_score * 0.2)
      in (''wqi'', PNum wqi) # classify_wqi wqi)"

text \<open>
  \<open>jsonify\<close> turns the dictionary into JSON. Flask's encoder knows the Python types and
  their subclasses; a \<open>numpy.bool_\<close> is none of them and makes it raise \<open>TypeError\<close>.
\<close>

fun jsonable :: "pyval \<Rightarrow> bool" where
  "jsonable (PNpBool b) = False"
| "jsonable (PList xs) = list_all jsonable xs"
| "jsonable (PDict kvs) = list_all (\<lambda>kv. jsonable (snd kv)) kvs"
| "jsonable v = True"

definition jsonify :: "pydict \<Rightarrow> py_error + pydict" where
  "jsonify d = (if jsonable (PDict d) then Inr d else Inl TypeError)"

text \<open>The JSON body of a request to \<open>/analyze\<close>; every key may be missing.\<close>

record telemetry =
  req_device_id :: "string option"
  req_flow_rate :: "real option"
  req_pressure :: "real option"
  req_turbidity :: "real option"
  req_temperature :: "real option"
  req_ph :: "real option"
  req_conductivity :: "real option"
  req_timestamp :: "string option"
  req_gps_lat :: "real option"
  req_gps_lon :: "real option"

text \<open>\<open>d[k] = v\<close>: an existing key keeps its place, a new key goes last.\<close>

definition dict_set :: "pydict \<Rightarrow> string \<Rightarrow> pyval \<Rightarrow> pydict" where
  "dict_set d k v =
     (if k \<in> fst ` set d then map (\<lambda>(k', v'). if k' = k then (k', v) else (k', v')) d
      else d @ [(k, v)])"

text \<open>
  The body of \<open>analyze\<close>. The global \<open>anomaly_detector\<close> is the argument \<open>self\<close>; an
  exception, also one that \<open>jsonify\<close> raises inside the \<open>try\<close> block, is the error of the
  500 response.
\<close>

definition analyze ::
  "('s, 'm) sklearn \<Rightarrow> ('s, 'm) anomaly_detector \<Rightarrow> telemetry \<Rightarrow> py_error + pydict" where
  "analyze lib self data =
     (let device_id = req_device_id data;
          flow_rate = get_or (req_flow_rate data) 0;
          pressure = get_or (req_pressure data) 0;
          turbidity = get_or (req_turbidity data) 0;
          temperature = get_or (req_temperature data) 0;
          ph = req_ph data;
          conductivity = req_conductivity data;
          gps_lat = req_gps_lat data;
          gps_lon = req_gps_lon data
      in raise_bind
           (AnomalyDetector_detect lib self flow_rate pressure turbidity temperature device_id)
           (\<lambda>anomaly_result.
        let flagged = truth (get_or (get anomaly_result ''anomaly_detected'') PNone);
            anomaly_type = get_or (get anomaly_result ''anomaly_type'') PNone;
            leak_result =
              (if flagged \<and> anomaly_type \<in> {PStr ''leak'', PStr ''pressure_anomaly''}
               then Some (LeakDetector_detect device_id pressure flow_rate gps_lat gps_lon)
               else None);
            contamination_result =
              (if flagged \<and> anomaly_type \<in> {PStr ''contamination'', PStr ''turbidity_anomaly''}
               then Some (ContaminationDetector_detect device_id turbidity temperature
                            gps_lat gps_lon)
               else None);
            water_quality =
              calculate_water_quality (Some turbidity) ph (Some temperature) conductivity;
            result =
              [(''anomaly_detected'', get_or (get anomaly_result ''anomaly_detected'') (PBool False)),
               (''anomaly_type'', anomaly_type),
               (''severity'', get_or (get anomaly_result ''severity'') (PStr ''low'')),
               (''confidence'', get_or (get anomaly_result ''confidence'') (PNum 0)),
               (''description'', get_or (get anomaly_result ''description'') (PStr [])),
               (''gps_estimate'',
                  (case leak_result of None \<Rightarrow> PNone
                   | Some l \<Rightarrow> get_or (get l ''gps_estimate'') PNone)),
               (''recommended_action'',
                  get_or (get anomaly_result ''recommended_action'') (PStr [])),
               (''water_quality'', PDict water_quality)];
            result1 =
              (case leak_result of None \<Rightarrow> result
               | Some l \<Rightarrow>
                   dict_set (dict_set result ''leak_details'' (PDict l))
                     ''gps_estimate'' (get_or (get l ''gps_estimate'') PNone));
            result2 =
              (case contamination_result of None \<Rightarrow> result1
               | Some c \<Rightarrow> dict_set result1 ''contamination_details'' (PDict c))
        in jsonify result2))"

section \<open>Concrete inputs\<close>

text \<open>A field of a result, when the call returned one.\<close>

definition field :: "py_error + pydict \<Rightarrow> string \<Rightarrow> pyval option" where
  "field r k = (case r of Inl e \<Rightarrow> None | Inr d \<Rightarrow> get d k)"

text \<open>
  A small stand-in for the library, for evaluating the services on concrete inputs.
  Both objects remember the rows they were last fitted on, and a scaler with no rows
  is one that is not fitted. The scaler scales nothing. As \<open>StandardScaler.fit\<close> does, its
  \<open>fit_transform\<close> first resets the scaler and then refuses an empty array, so a failed
  fit leaves the scaler not fitted. As \<open>IsolationForest.fit\<close> does, the forest fits any
  array that is not empty, a single row too; afterwards it flags every row it has not
  seen.
\<close>

definition memo_sklearn :: "(real list list, real list list) sklearn" where
  "memo_sklearn =
     \<lparr> scaler_transform = (\<lambda>s row. if s = [] then Inl NotFittedError else Inr row),
       scaler_fit_transform = (\<lambda>s X. if X = [] then ([], Inl ValueError) else (X, Inr X)),
       forest_predict = (\<lambda>m row. Inr (if row \<in> set m then 1 else - 1)),
       forest_score_samples = (\<lambda>m row. Inr (if row \<in> set m then - 0.4 else - 0.6)),
       forest_fit = (\<lambda>m X. if X = [] then (m, Inl ValueError) else (X, Inr ())),
       save_files = (\<lambda>m s. Inr ()) \<rparr>"

text \<open>The same library on a disk that cannot be written.\<close>

definition readonly_sklearn :: "(real list list, real list list) sklearn" where
  "readonly_sklearn = memo_sklearn \<lparr> save_files := (\<lambda>m s. Inl OSError) \<rparr>"

text \<open>The bootstrap rows of \<open>AnomalyDetector.__init__\<close> and a detector fitted on them.\<close>

definition dummy_data :: "real list list" where
  "dummy_data = [[10, 5, 2, 25], [12, 6, 3, 26], [11, 5.5, 2.5, 25.5]]"

definition bootstrap_detector :: "(real list list, real list list) anomaly_detector" where
  "bootstrap_detector = \<lparr> self_model = dummy_data, self_scaler = dummy_data \<rparr>"

text \<open>
  Trees that give 5 days to every row, trees that give 20 days to every row, and a
  stored model fitted on 6 columns.
\<close>

definition five_days :: "real list \<Rightarrow> real" where
  "five_days features = 5"


definition six_column_model :: regressor where
  "six_column_model = \<lparr> n_features_in = 6, forest_value = five_days \<rparr>"

definition empty_record :: history_record where
  "empty_record =
     \<lparr> rec_flow_rate = None, rec_pressure = None, rec_turbidity = None,
       rec_temperature = None, rec_pump_status = None \<rparr>"

text \<open>Ten pressure readings with one sharp dip, and a constant flow.\<close>

definition dip_pressure :: "real list" where
  "dip_pressure = [5, 1, 5, 5, 5, 5, 5, 5, 5, 5]"

definition steady_flow :: "real list" where
  "steady_flow = [20, 20, 20, 20, 20, 20, 20, 20, 20, 20]"


section \<open>Properties\<close>

lemma leak_detect_fields:
  "get (LeakDetector_detect d p f la lo) ''leak_detected'' = Some (PBool (fst (leak_rules p f)))"
  "get (LeakDetector_detect d p f la lo) ''confidence'' = Some (PNum (snd (leak_rules p f)))"
  "get (LeakDetector_detect d p f la lo) ''gps_estimate'' =
     Some (sensor_location (fst (leak_rules p f)) (snd (leak_rules p f)) la lo)"
  by (simp_all add: LeakDetector_detect_def get_def split_beta)

subsection \<open>The instantaneous leak rules\<close>

text \<open>
  The first rule of the chain holds as it is written: a pressure below 2.0 with a
  positive flow is a leak with confidence 0.7.
\<close>

lemma leak_detect_possible_leak:
  "p < 2.0 \<Longrightarrow> f > 0 \<Longrightarrow>
   get (LeakDetector_detect d p f la lo) ''leak_detected'' = Some (PBool True) \<and>
   get (LeakDetector_detect d p f la lo) ''confidence'' = Some (PNum 0.7)"
  by (simp add: leak_detect_fields leak_rules_def)

text \<open>
  That rule is tested before the other two and shadows them: with a positive flow no
  pressure gives the confidence 0.9 of the branch for a very low pressure.
\<close>

lemma leak_rules_positive_flow_never_critical:
  "f > 0 \<Longrightarrow> get (LeakDetector_detect d p f la lo) ''confidence'' \<noteq> Some (PNum 0.9)"
  by (simp add: leak_detect_fields leak_rules_def)

text \<open>
  C1: the code breaks the claim. A pressure of 1.2, below 1.5, with flow rate 10 gets
  the confidence 0.7 where the claim, and the comment of the branch for a very low
  pressure, give 0.9; a flow rate of 60, above 50, with pressure 1.8, below 3, gets 0.7
  where the claim, and the comment of the branch for a high flow with low pressure,
  give 0.8.
\<close>

theorem leak_detect_shadowed_rules:
  "(1.2::real) < 1.5 \<and>
   get (LeakDetector_detect None 1.2 10 None None) ''leak_detected'' = Some (PBool True) \<and>
   get (LeakDetector_detect None 1.2 10 None None) ''confidence'' = Some (PNum 0.7) \<and>
   get (LeakDetector_detect None 1.2 10 None None) ''confidence'' \<noteq> Some (PNum 0.9) \<and>
   (60::real) > 50 \<and> (1.8::real) < 3 \<and>
   get (LeakDetector_detect None 1.8 60 None None) ''confidence'' = Some (PNum 0.7) \<and>
   get (LeakDetector_detect None 1.8 60 None None) ''confidence'' \<noteq> Some (PNum 0.8)"
  by (simp add: leak_detect_fields leak_rules_def)

subsection \<open>The anomaly cascade\<close>

lemma anomaly_report_fields:
  "get (anomaly_report pr sc fl p tu te) ''anomaly_detected'' = Some (PNpBool (pr = - 1))"
  "pr = - 1 \<Longrightarrow> get (anomaly_report pr sc fl p tu te) ''anomaly_type'' =
     Some (PStr (fst (anomaly_rules fl p tu te)))"
  "pr = - 1 \<Longrightarrow> get (anomaly_report pr sc fl p tu te) ''severity'' =
     Some (PStr (snd (anomaly_rules fl p tu te)))"
  by (simp_all add: anomaly_report_def get_def split_beta Let_def)

lemma detect_report:
  "AnomalyDetector_detect lib self fl p tu te d = Inr r \<Longrightarrow>
   \<exists>pr sc. r = anomaly_report pr sc fl p tu te"
  by (auto simp: AnomalyDetector_detect_def raise_bind_def Let_def split: sum.splits)

lemma bootstrap_low_pressure:
  "AnomalyDetector_detect memo_sklearn bootstrap_detector 10 1.2 2 25 None =
     Inr (anomaly_report (- 1) (- 0.6) 10 1.2 2 25)"
  by (simp add: AnomalyDetector_detect_def memo_sklearn_def bootstrap_detector_def
      dummy_data_def raise_bind_def)

text \<open>
  C2, as stated, fails: at pressure 1.2 the test \<open>pressure < 1\<close> is false and the next
  one, \<open>pressure < 1.5\<close>, gives the severity high, not critical.
\<close>

theorem anomaly_low_pressure_severity_counterexample:
  "field (AnomalyDetector_detect memo_sklearn bootstrap_detector 10 1.2 2 25 None)
     ''anomaly_detected'' = Some (PNpBool True) \<and>
   field (AnomalyDetector_detect memo_sklearn bootstrap_detector 10 1.2 2 25 None)
     ''severity'' = Some (PStr ''high'') \<and>
   field (AnomalyDetector_detect memo_sklearn bootstrap_detector 10 1.2 2 25 None)
     ''severity'' \<noteq> Some (PStr ''critical'')"
  unfolding bootstrap_low_pressure field_def
  by (simp add: anomaly_report_fields anomaly_rules_def normal_pressure_def)

text \<open>
  C2, amended: with pressure 1.2 and flow rate 10, whenever the outlier model flags the
  sample, the cascade assigns the type \<open>pressure_anomaly\<close> (the pressure rule comes
  first) and the severity high; this holds for every library, every detector state and
  every turbidity and temperature.
\<close>

theorem anomaly_low_pressure_scenario:
  assumes "AnomalyDetector_detect lib self 10 1.2 tu te d = Inr r"
    and "get r ''anomaly_detected'' = Some (PNpBool True)"
  shows "get r ''anomaly_type'' = Some (PStr ''pressure_anomaly'') \<and>
         get r ''severity'' = Some (PStr ''high'')"
proof -
  from assms(1) obtain pr sc where r: "r = anomaly_report pr sc 10 1.2 tu te"
    using detect_report by blast
  with assms(2) have "pr = - 1"
    by (simp add: anomaly_report_fields)
  then show ?thesis
    by (simp add: r anomaly_report_fields anomaly_rules_def normal_pressure_def)
qed

theorem anomaly_low_pressure_scenario_witness:
  "AnomalyDetector_detect memo_sklearn bootstrap_detector 10 1.2 2 25 None =
     Inr (anomaly_report (- 1) (- 0.6) 10 1.2 2 25) \<and>
   get (anomaly_report (- 1) (- 0.6) 10 1.2 2 25) ''anomaly_detected'' = Some (PNpBool True) \<and>
   get (anomaly_report (- 1) (- 0.6) 10 1.2 2 25) ''anomaly_type'' =
     Some (PStr ''pressure_anomaly'') \<and>
   get (anomaly_report (- 1) (- 0.6) 10 1.2 2 25) ''severity'' = Some (PStr ''high'')"
proof -
  have flagged:
    "get (anomaly_report (- 1) (- 0.6) 10 1.2 2 25) ''anomaly_detected'' = Some (PNpBool True)"
    by (simp add: anomaly_report_fields)
  show ?thesis
    using anomaly_low_pressure_scenario [OF bootstrap_low_pressure flagged]
      bootstrap_low_pressure flagged
    by blast
qed

subsection \<open>The contamination bands\<close>

lemma contamination_detect_fields:
  "get (ContaminationDetector_detect d tu te la lo) ''contamination_detected'' =
     Some (PBool (fst (temperature_check te (turbidity_check tu))))"
  "get (ContaminationDetector_detect d tu te la lo) ''severity'' =
     Some (PStr (fst (snd (temperature_check te (turbidity_check tu)))))"
  "get (ContaminationDetector_detect d tu te la lo) ''confidence'' =
     Some (PNum (fst (snd (snd (temperature_check te (turbidity_check tu))))))"
  "get (ContaminationDetector_detect d tu te la lo) ''gps_estimate'' =
     Some (sensor_location (fst (temperature_check te (turbidity_check tu)))
             (fst (snd (snd (temperature_check te (turbidity_check tu))))) la lo)"
  by (simp_all add: ContaminationDetector_detect_def get_def split_beta)

lemmas contamination_consts =
  turbidity_check_def temperature_check_def turbidity_critical_def turbidity_warning_def
  turbidity_safe_def temperature_range_def

text \<open>
  C7: with the temperature inside \<open>[15, 35]\<close>, a turbidity of at least 10 is critical with
  confidence 0.95, one in \<open>[7, 10)\<close> is high with 0.8 and one in \<open>[5, 7)\<close> is medium with
  0.6. With the temperature outside \<open>[15, 35]\<close>, each of these confidences is raised by
  0.1 and capped at 1.0, and a turbidity below 5, where nothing was detected yet, gives
  a detection of severity low with confidence 0.5.
\<close>

theorem contamination_detect_bands:
  "(15 \<le> te \<and> te \<le> 35 \<longrightarrow>
      (tu \<ge> 10 \<longrightarrow>
         get (ContaminationDetector_detect d tu te la lo) ''contamination_detected'' = Some (PBool True) \<and>
         get (ContaminationDetector_detect d tu te la lo) ''severity'' = Some (PStr ''critical'') \<and>
         get (ContaminationDetector_detect d tu te la lo) ''confidence'' = Some (PNum 0.95)) \<and>
      (7 \<le> tu \<and> tu < 10 \<longrightarrow>
         get (ContaminationDetector_detect d tu te la lo) ''contamination_detected'' = Some (PBool True) \<and>
         get (ContaminationDetector_detect d tu te la lo) ''severity'' = Some (PStr ''high'') \<and>
         get (ContaminationDetector_detect d tu te la lo) ''confidence'' = Some (PNum 0.8)) \<and>
      (5 \<le> tu \<and> tu < 7 \<longrightarrow>
         get (ContaminationDetector_detect d tu te la lo) ''contamination_detected'' = Some (PBool True) \<and>
         get (ContaminationDetector_detect d tu te la lo) ''severity'' = Some (PStr ''medium'') \<and>
         get (ContaminationDetector_detect d tu te la lo) ''confidence'' = Some (PNum 0.6))) \<and>
   (te < 15 \<or> te > 35 \<longrightarrow>
      (tu \<ge> 10 \<longrightarrow>
         get (ContaminationDetector_detect d tu te la lo) ''contamination_detected'' = Some (PBool True) \<and>
         get (ContaminationDetector_detect d tu te la lo) ''severity'' = Some (PStr ''critical'') \<and>
         get (ContaminationDetector_detect d tu te la lo) ''confidence'' = Some (PNum (min (0.95 + 0.1) 1.0))) \<and>
      (7 \<le> tu \<and> tu < 10 \<longrightarrow>
         get (ContaminationDetector_detect d tu te la lo) ''contamination_detected'' = Some (PBool True) \<and>
         get (ContaminationDetector_detect d tu te la lo) ''severity'' = Some (PStr ''high'') \<and>
         get (ContaminationDetector_detect d tu te la lo) ''confidence'' = Some (PNum (min (0.8 + 0.1) 1.0))) \<and>
      (5 \<le> tu \<and> tu < 7 \<longrightarrow>
         get (ContaminationDetector_detect d tu te la lo) ''contamination_detected'' = Some (PBool True) \<and>
         get (ContaminationDetector_detect d tu te la lo) ''severity'' = Some (PStr ''medium'') \<and>
         get (ContaminationDetector_detect d tu te la lo) ''confidence'' = Some (PNum (min (0.6 + 0.1) 1.0))) \<and>
      (tu < 5 \<longrightarrow>
         get (ContaminationDetector_detect d tu te la lo) ''contamination_detected'' = Some (PBool True) \<and>
         get (ContaminationDetector_detect d tu te la lo) ''severity'' = Some (PStr ''low'') \<and>
         get (ContaminationDetector_detect d tu te la lo) ''confidence'' = Some (PNum 0.5)))"
  by (simp add: contamination_detect_fields contamination_consts)

theorem contamination_detect_bands_witness:
  "get (ContaminationDetector_detect None 12 25 None None) ''confidence'' = Some (PNum 0.95) \<and>
   get (ContaminationDetector_detect None 8 25 None None) ''confidence'' = Some (PNum 0.8) \<and>
   get (ContaminationDetector_detect None 6 25 None None) ''confidence'' = Some (PNum 0.6) \<and>
   get (ContaminationDetector_detect None 12 40 None None) ''confidence'' = Some (PNum 1) \<and>
   get (ContaminationDetector_detect None 8 40 None None) ''confidence'' = Some (PNum 0.9) \<and>
   get (ContaminationDetector_detect None 6 10 None None) ''confidence'' = Some (PNum 0.7) \<and>
   get (ContaminationDetector_detect None 2 10 None None) ''severity'' = Some (PStr ''low'') \<and>
   get (ContaminationDetector_detect None 2 10 None None) ''confidence'' = Some (PNum 0.5)"
  using contamination_detect_bands [of 25 12 None None None]
        contamination_detect_bands [of 25 8 None None None]
        contamination_detect_bands [of 25 6 None None None]
        contamination_detect_bands [of 40 12 None None None]
        contamination_detect_bands [of 40 8 None None None]
        contamination_detect_bands [of 10 6 None None None]
        contamination_detect_bands [of 10 2 None None None]
  by simp

subsection \<open>The turbidity score\<close>

text \<open>
  C8: on \<open>[0, 50]\<close> the turbidity score does not increase with the turbidity; it is 100
  at 0 and 0 from 50 on.
\<close>

theorem score_turbidity_monotone:
  "(0 \<le> t1 \<and> t1 \<le> t2 \<and> t2 \<le> 50 \<longrightarrow>
      score_turbidity (Some t2) \<le> score_turbidity (Some t1)) \<and>
   score_turbidity (Some 0) = 100 \<and>
   (50 \<le> t \<longrightarrow> score_turbidity (Some t) = 0)"
  by (auto simp: score_turbidity_def clamp_def min_def max_def)

theorem score_turbidity_monotone_witness:
  "score_turbidity (Some 20) \<le> score_turbidity (Some 10) \<and>
   score_turbidity (Some 10) = 80 \<and> score_turbidity (Some 20) = 60 \<and>
   score_turbidity (Some 0) = 100 \<and> score_turbidity (Some 75) = 0"
proof -
  have "score_turbidity (Some 10) = 80" "score_turbidity (Some 20) = 60"
    by (simp_all add: score_turbidity_def clamp_def)
  then show ?thesis
    using score_turbidity_monotone [of 10 20 75] by simp
qed

subsection \<open>Coordinates that are zero\<close>

lemma gps_attached:
  "get (LeakDetector_detect None 1.2 10 (Some 17.4) (Some 78.5)) ''gps_estimate'' =
     Some (PDict [(''lat'', PNum 17.4), (''lon'', PNum 78.5), (''confidence'', PNum 0.7),
                  (''method'', PStr ''sensor_location'')])"
  by (simp add: leak_detect_fields leak_rules_def sensor_location_def truthy_def opt_num_def)

text \<open>
  C10: in both \<open>detect\<close> functions, when an issue is detected and the latitude or the
  longitude is 0, the \<open>gps_estimate\<close> is \<open>None\<close> and the whole result is the one returned
  when both coordinates are absent: the condition tests the truth value of the
  coordinates.
\<close>

theorem gps_zero_dropped:
  "(get (LeakDetector_detect d p f la lo) ''leak_detected'' = Some (PBool True) \<and>
    (la = Some 0 \<or> lo = Some 0) \<longrightarrow>
      get (LeakDetector_detect d p f la lo) ''gps_estimate'' = Some PNone \<and>
      LeakDetector_detect d p f la lo = LeakDetector_detect d p f None None) \<and>
   (get (ContaminationDetector_detect d tu te la lo) ''contamination_detected'' = Some (PBool True) \<and>
    (la = Some 0 \<or> lo = Some 0) \<longrightarrow>
      get (ContaminationDetector_detect d tu te la lo) ''gps_estimate'' = Some PNone \<and>
      ContaminationDetector_detect d tu te la lo = ContaminationDetector_detect d tu te None None)"
  by (auto simp: LeakDetector_detect_def ContaminationDetector_detect_def get_def split_beta
      sensor_location_def truthy_def)

theorem gps_zero_dropped_witness:
  "get (LeakDetector_detect None 1.2 10 (Some 0) (Some 78.5)) ''leak_detected'' = Some (PBool True) \<and>
   get (LeakDetector_detect None 1.2 10 (Some 0) (Some 78.5)) ''gps_estimate'' = Some PNone \<and>
   get (ContaminationDetector_detect None 12 25 (Some 17.4) (Some 0)) ''contamination_detected''
     = Some (PBool True) \<and>
   get (ContaminationDetector_detect None 12 25 (Some 17.4) (Some 0)) ''gps_estimate'' = Some PNone"
proof -
  have a: "get (LeakDetector_detect None 1.2 10 (Some 0) (Some 78.5)) ''leak_detected'' =
      Some (PBool True)"
    by (simp add: leak_detect_fields leak_rules_def)
  have b: "get (ContaminationDetector_detect None 12 25 (Some 17.4) (Some 0))
      ''contamination_detected'' = Some (PBool True)"
    by (simp add: contamination_detect_fields contamination_consts)
  show ?thesis
    using a b gps_zero_dropped [of None "1.2" 10 "Some 0" "Some 78.5" 12 25]
      gps_zero_dropped [of None "1.2" 10 "Some 17.4" "Some 0" 12 25]
    by blast
qed

subsection \<open>Too little history\<close>

text \<open>
  With a leak history of fewer than 10 points in either series, \<open>detect_with_history\<close>
  returns, and does not raise, a result with \<open>leak_detected\<close> false, confidence 0 and a
  message; with fewer than 30 records \<open>predict\<close> returns a result with
  \<open>maintenance_needed\<close> false, confidence 0 and a message, whatever the regression
  model is.
\<close>

lemma insufficient_history_leak:
  "length pressure_data < 10 \<or> length flow_data < 10 \<Longrightarrow>
   (\<exists>r. detect_with_history d pressure_data flow_data = Inr r) \<and>
   field (detect_with_history d pressure_data flow_data) ''leak_detected'' = Some (PBool False) \<and>
   field (detect_with_history d pressure_data flow_data) ''confidence'' = Some (PNum 0) \<and>
   field (detect_with_history d pressure_data flow_data) ''message'' =
     Some (PStr ''Insufficient data for leak detection'')"
  by (simp add: detect_with_history_def field_def get_def)

lemma insufficient_history_maintenance:
  "length historical_data < 30 \<Longrightarrow>
   (\<exists>r. predict model d historical_data = Inr r) \<and>
   field (predict model d historical_data) ''maintenance_needed'' = Some (PBool False) \<and>
   field (predict model d historical_data) ''confidence'' = Some (PNum 0) \<and>
   field (predict model d historical_data) ''message'' =
     Some (PStr ''Insufficient historical data (need at least 30 readings)'')"
  by (simp add: predict_def field_def get_def)

text \<open>
  With fewer than 5 turbidity points \<open>detect_pattern\<close> returns a result; its flag is
  false and it has a message.
\<close>

lemma insufficient_history_pattern:
  "length turbidity_history < 5 \<Longrightarrow>
   get (detect_pattern turbidity_history temperature_history) ''contamination_detected'' =
     Some (PBool False) \<and>
   get (detect_pattern turbidity_history temperature_history) ''message'' =
     Some (PStr ''Insufficient data'')"
  by (simp add: detect_pattern_def get_def)

text \<open>
  C4: the code breaks the claim in \<open>detect_pattern\<close>. With 4 turbidity points, fewer than
  5, it returns a result whose flag is false, but the result has no \<open>confidence\<close> key,
  where the claim gives the confidence 0, as the two other operations and the other
  return of \<open>detect_pattern\<close> itself do.
\<close>

theorem detect_pattern_no_confidence:
  "length ([1, 2, 3, 4] :: real list) < 5 \<and>
   get (detect_pattern [1, 2, 3, 4] []) ''contamination_detected'' = Some (PBool False) \<and>
   get (detect_pattern [1, 2, 3, 4] []) ''confidence'' = None \<and>
   get (detect_pattern [1, 2, 3, 4] []) ''confidence'' \<noteq> Some (PNum 0) \<and>
   field (detect_with_history None [5, 4, 3] [20, 20, 20]) ''confidence'' = Some (PNum 0) \<and>
   field (predict six_column_model None (replicate 29 empty_record)) ''confidence'' =
     Some (PNum 0)"
  by (simp add: detect_pattern_def detect_with_history_def predict_def field_def get_def)

subsection \<open>The confidence of the maintenance estimate\<close>

lemma extract_features_length: "length (extract_features historical_data) = 6"
  by (simp add: extract_features_def Let_def)

text \<open>
  From 30 records on \<open>predict\<close> returns a result exactly when the model was fitted on
  the 6 columns that \<open>_extract_features\<close> produces; otherwise it raises \<open>ValueError\<close>.
\<close>

lemma predict_returns_iff:
  "30 \<le> length historical_data \<Longrightarrow>
   (\<exists>r. predict model d historical_data = Inr r) \<longleftrightarrow> n_features_in model = 6"
  by (simp add: predict_def regressor_predict_def raise_bind_def Let_def
      extract_features_length)

text \<open>
  The model that \<open>__init__\<close> fits when no file is stored has 5 columns, so with it
  \<open>predict\<close> raises for every list of at least 30 records, whatever the trees are.
\<close>

lemma predict_bootstrap_raises:
  "30 \<le> length historical_data \<Longrightarrow>
   predict (MaintenancePredictor_init None fitted) d historical_data = Inl ValueError"
  by (simp add: predict_def regressor_predict_def raise_bind_def Let_def
      extract_features_length MaintenancePredictor_init_def)




subsection \<open>Retraining that fails\<close>

text \<open>
  C3, as stated, fails: \<open>update_model\<close> has no rollback. The empty list of rows becomes an
  empty array, on which the fit of the scaler fails after it has reset the scaler: the
  call returns \<open>False\<close>, the scaler is no longer fitted while the model is the old one,
  and \<open>detect\<close>, which worked before the call, now raises. And when only the saving
  fails, the call returns \<open>False\<close> with both objects refitted.
\<close>

theorem update_model_not_rolled_back_counterexample:
  "np_array [] = Inr [] \<and>
   fst (update_model memo_sklearn bootstrap_detector []) = False \<and>
   self_scaler (snd (update_model memo_sklearn bootstrap_detector [])) = [] \<and>
   self_model (snd (update_model memo_sklearn bootstrap_detector [])) = dummy_data \<and>
   snd (update_model memo_sklearn bootstrap_detector []) \<noteq> bootstrap_detector \<and>
   AnomalyDetector_detect memo_sklearn bootstrap_detector 10 5 2 25 None \<noteq> Inl NotFittedError \<and>
   AnomalyDetector_detect memo_sklearn (snd (update_model memo_sklearn bootstrap_detector []))
     10 5 2 25 None = Inl NotFittedError \<and>
   fst (update_model readonly_sklearn bootstrap_detector [[1, 2, 3, 4], [5, 6, 7, 8]]) = False \<and>
   snd (update_model readonly_sklearn bootstrap_detector [[1, 2, 3, 4], [5, 6, 7, 8]]) =
     \<lparr>self_model = [[1, 2, 3, 4], [5, 6, 7, 8]], self_scaler = [[1, 2, 3, 4], [5, 6, 7, 8]]\<rparr> \<and>
   snd (update_model readonly_sklearn bootstrap_detector [[1, 2, 3, 4], [5, 6, 7, 8]]) \<noteq>
     bootstrap_detector"
  by (simp add: update_model_def np_array_def memo_sklearn_def readonly_sklearn_def
      bootstrap_detector_def dummy_data_def AnomalyDetector_detect_def raise_bind_def)

text \<open>
  C3, amended: \<open>update_model\<close> raises nothing, and nothing it has done is rolled back.
  When the array conversion fails (rows of different lengths), it returns failure and
  the detector is exactly as before the call. When the fit of the scaler fails, it
  returns failure, the scaler is what the failed fit left and the model is the old
  one. When the scaler was fitted, the scaler is the refitted one and the model is what
  the fit of the model left, whether that fit or the saving fails or not; the call
  returns success exactly when the fit of the model and the saving both succeed.
\<close>

theorem update_model_outcome:
  "(\<forall>e. np_array rows = Inl e \<longrightarrow> update_model lib self rows = (False, self)) \<and>
   (\<forall>X s1 e. np_array rows = Inr X \<and>
         scaler_fit_transform lib (self_scaler self) X = (s1, Inl e) \<longrightarrow>
      update_model lib self rows = (False, self\<lparr>self_scaler := s1\<rparr>)) \<and>
   (\<forall>X s1 Xs m1 r. np_array rows = Inr X \<and>
         scaler_fit_transform lib (self_scaler self) X = (s1, Inr Xs) \<and>
         forest_fit lib (self_model self) Xs = (m1, r) \<longrightarrow>
      update_model lib self rows =
        (r = Inr () \<and> save_files lib m1 s1 = Inr (),
         self\<lparr>self_scaler := s1, self_model := m1\<rparr>))"
  by (auto simp: update_model_def split: sum.splits prod.splits)

theorem update_model_outcome_witness:
  "update_model memo_sklearn bootstrap_detector [[1, 2], [3]] = (False, bootstrap_detector) \<and>
   update_model memo_sklearn bootstrap_detector [] =
     (False, bootstrap_detector\<lparr>self_scaler := []\<rparr>) \<and>
   update_model memo_sklearn bootstrap_detector [[1, 2, 3, 4]] =
     (True, bootstrap_detector\<lparr>self_scaler := [[1, 2, 3, 4]], self_model := [[1, 2, 3, 4]]\<rparr>) \<and>
   update_model readonly_sklearn bootstrap_detector [[1, 2, 3, 4]] =
     (False, bootstrap_detector\<lparr>self_scaler := [[1, 2, 3, 4]], self_model := [[1, 2, 3, 4]]\<rparr>)"
proof -
  have a: "np_array [[1, 2], [3]] = Inl ValueError"
    by (simp add: np_array_def)
  have b: "np_array [] = Inr []"
    "scaler_fit_transform memo_sklearn (self_scaler bootstrap_detector) [] = ([], Inl ValueError)"
    by (simp_all add: np_array_def memo_sklearn_def)
  have c: "np_array [[1, 2, 3, 4]] = Inr [[1, 2, 3, 4]]"
    "scaler_fit_transform memo_sklearn (self_scaler bootstrap_detector) [[1, 2, 3, 4]] =
       ([[1, 2, 3, 4]], Inr [[1, 2, 3, 4]])"
    "forest_fit memo_sklearn (self_model bootstrap_detector) [[1, 2, 3, 4]] =
       ([[1, 2, 3, 4]], Inr ())"
    "save_files memo_sklearn [[1, 2, 3, 4]] [[1, 2, 3, 4]] = Inr ()"
    by (simp_all add: np_array_def memo_sklearn_def)
  have d: "scaler_fit_transform readonly_sklearn (self_scaler bootstrap_detector) [[1, 2, 3, 4]] =
       ([[1, 2, 3, 4]], Inr [[1, 2, 3, 4]])"
    "forest_fit readonly_sklearn (self_model bootstrap_detector) [[1, 2, 3, 4]] =
       ([[1, 2, 3, 4]], Inr ())"
    "save_files readonly_sklearn [[1, 2, 3, 4]] [[1, 2, 3, 4]] \<noteq> Inr ()"
    by (simp_all add: readonly_sklearn_def memo_sklearn_def)
  show ?thesis
    using a b c d
      update_model_outcome [of "[[1, 2], [3]]" memo_sklearn bootstrap_detector]
      update_model_outcome [of "[]" memo_sklearn bootstrap_detector]
      update_model_outcome [of "[[1, 2, 3, 4]]" memo_sklearn bootstrap_detector]
      update_model_outcome [of "[[1, 2, 3, 4]]" readonly_sklearn bootstrap_detector]
    by (simp (no_asm_simp))
qed

subsection \<open>The route \<open>/analyze\<close>\<close>

text \<open>
  \<open>detect\<close> puts the value of \<open>prediction[0] == -1\<close>, a \<open>numpy.bool_\<close>, under
  \<open>anomaly_detected\<close>, and \<open>analyze\<close> copies it into the dictionary it hands to \<open>jsonify\<close>.
  So whenever \<open>detect\<close> returns, \<open>jsonify\<close> raises: \<open>analyze\<close> never returns a result.
\<close>

lemma dict_set_keeps:
  "(k0, v0) \<in> set d \<Longrightarrow> k \<noteq> k0 \<Longrightarrow> (k0, v0) \<in> set (dict_set d k v)"
  by (auto simp: dict_set_def intro!: image_eqI [of _ _ "(k0, v0)"])

lemma jsonable_dict:
  "(k0, v0) \<in> set d \<Longrightarrow> \<not> jsonable v0 \<Longrightarrow> jsonify d = Inl TypeError"
  by (auto simp: jsonify_def list_all_iff intro!: bexI [of _ "(k0, v0)"])

lemma analyze_never_returns: "\<exists>e. analyze lib self data = Inl e"
proof (cases "AnomalyDetector_detect lib self (get_or (req_flow_rate data) 0)
    (get_or (req_pressure data) 0) (get_or (req_turbidity data) 0)
    (get_or (req_temperature data) 0) (req_device_id data)")
  case (Inl e)
  then show ?thesis
    by (simp add: analyze_def raise_bind_def Let_def)
next
  case (Inr r)
  then obtain pr sc where r: "r = anomaly_report pr sc (get_or (req_flow_rate data) 0)
      (get_or (req_pressure data) 0) (get_or (req_turbidity data) 0)
      (get_or (req_temperature data) 0)"
    using detect_report by blast
  have g: "get_or (get r ''anomaly_detected'') (PBool False) = PNpBool (pr = - 1)"
    by (simp add: r anomaly_report_fields get_or_def)
  show ?thesis
    unfolding analyze_def Let_def raise_bind_def Inr sum.case g
    by (intro exI [of _ TypeError] jsonable_dict [of "''anomaly_detected''" "PNpBool (pr = - 1)"])
       (auto split: option.splits intro!: dict_set_keeps)
qed

subsection \<open>The confidence of the historical leak detector\<close>

lemma leak_decision_flag:
  "fst (leak_decision dr c rp m s) \<longleftrightarrow>
     dr < - 0.3 \<or> nan_less c (- 0.5) \<or> rp < m - 2 * s"
  by (simp add: leak_decision_def)

lemma leak_decision_sum:
  "snd (leak_decision dr c rp m s) =
     (if dr < - 0.3 then 0.4 else 0) + (if nan_less c (- 0.5) then 0.3 else 0) +
     (if rp < m - 2 * s then 0.3 else 0)"
  by (simp add: leak_decision_def)

lemma leak_decision_le_1: "snd (leak_decision dr c rp m s) \<le> 1"
  by (simp add: leak_decision_sum)

lemma np_gradient_Inr:
  "2 \<le> length p \<Longrightarrow> \<exists>g. np_gradient p = Inr g \<and> length g = length p"
  by (simp add: np_gradient_def Let_def)

lemma np_min_Inr: "xs \<noteq> [] \<Longrightarrow> \<exists>m. np_min xs = Inr m"
  by (cases xs) (simp_all add: np_min_def)

lemma np_argmin_Inr: "xs \<noteq> [] \<Longrightarrow> \<exists>i. np_argmin xs = Inr i"
  using np_min_Inr [of xs] by (auto simp: np_argmin_def raise_bind_def)

lemma np_corrcoef_Inr: "length xs = length ys \<Longrightarrow> \<exists>c. np_corrcoef xs ys = Inr c"
  by (simp add: np_corrcoef_def Let_def)

lemma leak_location_Inr: "g \<noteq> [] \<Longrightarrow> \<exists>l. leak_location b g dr = Inr l"
  using np_argmin_Inr [of g] by (auto simp: leak_location_def raise_bind_def)

lemma detect_with_history_confidence:
  assumes "10 \<le> length p" "10 \<le> length f"
    and "np_gradient p = Inr g" "np_min g = Inr dr" "np_corrcoef p f = Inr c" "g \<noteq> []"
  shows "\<exists>r. detect_with_history d p f = Inr r \<and>
     get r ''confidence'' =
       Some (PNum (min (snd (leak_decision dr c (np_mean (last_n 5 p)) (np_mean p) (np_std p))) 1.0)) \<and>
     get r ''leak_detected'' =
       Some (PBool (fst (leak_decision dr c (np_mean (last_n 5 p)) (np_mean p) (np_std p))))"
proof -
  obtain l where
    "leak_location (fst (leak_decision dr c (np_mean (last_n 5 p)) (np_mean p) (np_std p))) g dr
       = Inr l"
    using leak_location_Inr [OF assms(6)] by blast
  with assms show ?thesis
    by (simp add: detect_with_history_def raise_bind_def Let_def split_beta get_def)
qed

text \<open>The concrete series: the gradient, its minimum, the correlation and the recent mean.\<close>

lemma upt_10: "[0..<10] = [0, 1, 2, 3, 4, 5, 6, 7, 8, 9]"
  by (simp add: upt_rec)

lemma dip_gradient: "np_gradient dip_pressure = Inr [- 4, 0, 2, 0, 0, 0, 0, 0, 0, 0]"
  by (simp add: np_gradient_def dip_pressure_def upt_10)

lemma dip_min: "np_min [- 4, 0, 2, 0, 0, 0, 0, 0, 0, 0] = Inr (- 4)"
  by (simp add: np_min_def)

lemma dip_corrcoef: "np_corrcoef dip_pressure steady_flow = Inr None"
  by (simp add: np_corrcoef_def np_cov_def np_mean_def dip_pressure_def steady_flow_def)

lemma np_mean_nonneg: "(\<And>x. x \<in> set xs \<Longrightarrow> 0 \<le> x) \<Longrightarrow> 0 \<le> np_mean xs"
  by (simp add: np_mean_def sum_list_nonneg)

lemma np_std_nonneg: "0 \<le> np_std xs"
  unfolding np_std_def by (rule real_sqrt_ge_zero, rule np_mean_nonneg) auto

lemma dip_recent:
  "\<not> np_mean (last_n 5 dip_pressure) < np_mean dip_pressure - 2 * np_std dip_pressure"
proof -
  have "np_mean (last_n 5 dip_pressure) = 5" "np_mean dip_pressure = 4.6"
    by (simp_all add: np_mean_def last_n_def dip_pressure_def)
  then show ?thesis
    using np_std_nonneg [of dip_pressure] by simp
qed

text \<open>
  C5, as stated, fails twice. Two series of at least 10 points each but of different
  lengths make \<open>np.corrcoef\<close> raise, so there is no result and no confidence. And the
  message of the result for too few points is not the text \<open>insufficient data\<close>.
\<close>

theorem leak_history_unequal_lengths_counterexample:
  "10 \<le> length dip_pressure \<and> 10 \<le> length (steady_flow @ [20]) \<and>
   detect_with_history None dip_pressure (steady_flow @ [20]) = Inl ValueError \<and>
   field (detect_with_history None [] []) ''message'' \<noteq> Some (PStr ''insufficient data'')"
  by (simp add: detect_with_history_def dip_gradient dip_min raise_bind_def np_corrcoef_def
      field_def get_def)
     (simp add: dip_pressure_def steady_flow_def)

text \<open>
  C5, amended: for every pair of series of the same length, at least 10, the detector
  returns a result whose confidence is the sum of the weights of exactly those signals
  that fire among the minimum of the gradient below \<open>-0.3\<close> (weight 0.4), the correlation
  below \<open>-0.5\<close> (weight 0.3; a nan correlation does not fire) and the mean of the last 5
  points below the overall mean minus twice the standard deviation (weight 0.3),
  capped at 1.0; the leak is detected exactly when one of them fires, and the
  confidence never exceeds 1.0. When either series has fewer than 10 points, the
  confidence is 0 and the message is \<open>Insufficient data for leak detection\<close>.
\<close>

theorem leak_history_confidence:
  "(10 \<le> length p \<and> length f = length p \<longrightarrow>
      (\<exists>g dr c r. np_gradient p = Inr g \<and> np_min g = Inr dr \<and> np_corrcoef p f = Inr c \<and>
         detect_with_history d p f = Inr r \<and>
         get r ''confidence'' =
           Some (PNum (min ((if dr < - 0.3 then 0.4 else 0) +
                            (if nan_less c (- 0.5) then 0.3 else 0) +
                            (if np_mean (last_n 5 p) < np_mean p - 2 * np_std p then 0.3 else 0))
                           1.0)) \<and>
         get r ''leak_detected'' =
           Some (PBool (dr < - 0.3 \<or> nan_less c (- 0.5) \<or>
                        np_mean (last_n 5 p) < np_mean p - 2 * np_std p))) \<and>
      (\<forall>v. field (detect_with_history d p f) ''confidence'' = Some (PNum v) \<longrightarrow> v \<le> 1)) \<and>
   (length p < 10 \<or> length f < 10 \<longrightarrow>
      field (detect_with_history d p f) ''confidence'' = Some (PNum 0) \<and>
      field (detect_with_history d p f) ''message'' =
        Some (PStr ''Insufficient data for leak detection''))"
proof (intro conjI impI)
  assume a: "10 \<le> length p \<and> length f = length p"
  then obtain g where g: "np_gradient p = Inr g" "length g = length p"
    using np_gradient_Inr [of p] by auto
  with a have ne: "g \<noteq> []" by auto
  then obtain dr where dr: "np_min g = Inr dr"
    using np_min_Inr by blast
  from a obtain c where c: "np_corrcoef p f = Inr c"
    using np_corrcoef_Inr [of p f] by auto
  from a have len: "10 \<le> length p" "10 \<le> length f" by auto
  from detect_with_history_confidence [OF len g(1) dr c ne, of d]
  obtain r where r: "detect_with_history d p f = Inr r"
    "get r ''confidence'' =
       Some (PNum (min (snd (leak_decision dr c (np_mean (last_n 5 p)) (np_mean p) (np_std p))) 1.0))"
    "get r ''leak_detected'' =
       Some (PBool (fst (leak_decision dr c (np_mean (last_n 5 p)) (np_mean p) (np_std p))))"
    by blast
  show "\<exists>g dr c r. np_gradient p = Inr g \<and> np_min g = Inr dr \<and> np_corrcoef p f = Inr c \<and>
         detect_with_history d p f = Inr r \<and>
         get r ''confidence'' =
           Some (PNum (min ((if dr < - 0.3 then 0.4 else 0) +
                            (if nan_less c (- 0.5) then 0.3 else 0) +
                            (if np_mean (last_n 5 p) < np_mean p - 2 * np_std p then 0.3 else 0))
                           1.0)) \<and>
         get r ''leak_detected'' =
           Some (PBool (dr < - 0.3 \<or> nan_less c (- 0.5) \<or>
                        np_mean (last_n 5 p) < np_mean p - 2 * np_std p))"
    using g(1) dr c r unfolding leak_decision_sum leak_decision_flag by blast
  show "\<forall>v. field (detect_with_history d p f) ''confidence'' = Some (PNum v) \<longrightarrow> v \<le> 1"
    using r(1,2) leak_decision_le_1 [of dr c "np_mean (last_n 5 p)" "np_mean p" "np_std p"]
    by (auto simp: field_def)
next
  assume "length p < 10 \<or> length f < 10"
  then show "field (detect_with_history d p f) ''confidence'' = Some (PNum 0)"
    and "field (detect_with_history d p f) ''message'' =
        Some (PStr ''Insufficient data for leak detection'')"
    by (simp_all add: detect_with_history_def field_def get_def)
qed

theorem leak_history_confidence_witness:
  "10 \<le> length dip_pressure \<and> length steady_flow = length dip_pressure \<and>
   field (detect_with_history None dip_pressure steady_flow) ''leak_detected'' =
     Some (PBool True) \<and>
   field (detect_with_history None dip_pressure steady_flow) ''confidence'' = Some (PNum 0.4) \<and>
   field (detect_with_history None [5, 4, 3] [20, 20, 20]) ''confidence'' = Some (PNum 0)"
proof -
  have len: "10 \<le> length dip_pressure \<and> length steady_flow = length dip_pressure"
    by (simp add: dip_pressure_def steady_flow_def)
  with leak_history_confidence [of dip_pressure steady_flow None]
  obtain g dr c r where *: "np_gradient dip_pressure = Inr g" "np_min g = Inr dr"
    "np_corrcoef dip_pressure steady_flow = Inr c"
    "detect_with_history None dip_pressure steady_flow = Inr r"
    "get r ''confidence'' =
       Some (PNum (min ((if dr < - 0.3 then 0.4 else 0) +
                        (if nan_less c (- 0.5) then 0.3 else 0) +
                        (if np_mean (last_n 5 dip_pressure) <
                            np_mean dip_pressure - 2 * np_std dip_pressure then 0.3 else 0))
                       1.0))"
    "get r ''leak_detected'' =
       Some (PBool (dr < - 0.3 \<or> nan_less c (- 0.5) \<or>
                    np_mean (last_n 5 dip_pressure) <
                      np_mean dip_pressure - 2 * np_std dip_pressure))"
    by blast
  from *(1) have g: "g = [- 4, 0, 2, 0, 0, 0, 0, 0, 0, 0]"
    by (simp add: dip_gradient)
  with *(2) have dr: "dr = - 4"
    by (simp add: dip_min)
  from *(3) have c: "c = None"
    by (simp add: dip_corrcoef)
  have short: "field (detect_with_history None [5, 4, 3] [20, 20, 20]) ''confidence'' =
      Some (PNum 0)"
    using leak_history_confidence [of "[5, 4, 3]" "[20, 20, 20]" None] by simp
  from *(4,5,6) show ?thesis
    using len short dip_recent by (simp add: dr c field_def nan_less_def)
qed

end
